theory Spec2Isabelle
  imports Main "HOL-Library.Word" "HOL-Library.AList"
begin

section \<open>Data model of package jwt\<close>

text \<open>
  The embedding follows the current variant of \<^verbatim>\<open>jwt.go\<close> (the last of the three
  variants in the file: \<^verbatim>\<open>ParseAndVerify\<close> with the issued-at check, \<^verbatim>\<open>keyCache\<close> with
  the read/write lock). It is a sequential model: the lock \<^verbatim>\<open>mu\<close> has no counterpart.

  Go strings are byte strings and are modelled as \<^typ>\<open>string\<close>; \<^verbatim>\<open>[]byte\<close> is a list of
  8-bit words; \<^verbatim>\<open>int64\<close> is a 64-bit word read by \<^const>\<open>sint\<close>; \<^verbatim>\<open>time.Time\<close> is a point on
  the integer time line, ordered as \<^verbatim>\<open>Before\<close> orders instants.
\<close>

type_synonym bytes = "8 word list"
type_synonym int64 = "64 word"
type_synonym time = int

record jwk =
  jwk_N :: string
  jwk_E :: string
  jwk_KID :: string

text \<open>\<^verbatim>\<open>Keys\<close> is a slice: \<^const>\<open>None\<close> is the nil slice, \<^term>\<open>Some []\<close> the empty one.\<close>

record jwks =
  Keys :: "jwk list option"

text \<open>\<^verbatim>\<open>rsa.PublicKey\<close>: the modulus is a \<^verbatim>\<open>big.Int\<close>, the exponent a Go \<^verbatim>\<open>int\<close> (64 bits).\<close>

record PublicKey =
  pk_N :: nat
  pk_E :: int64

record Header =
  ALG :: string
  KID :: string
  TYP :: string

record Claims =
  ISS :: string
  AZP :: string
  AUD :: string
  SUB :: string
  Email :: string
  EmailVerified :: bool
  ATHash :: string
  Name :: string
  Picture :: string
  GivenName :: string
  FamilyName :: string
  Locale :: string
  Nonce :: string
  Profile :: string
  HD :: string
  IAT :: int64
  EXP :: int64

record JWT =
  Header :: Header
  Claims :: Claims
  Signature :: string

text \<open>
  Every \<^verbatim>\<open>fmt.Errorf\<close> of the source is one constructor, carrying the values it formats
  (the \<^verbatim>\<open>io.Reader\<close> that some messages print is left out). \<open>CorruptInputError\<close> is the
  error of \<^verbatim>\<open>encoding/base64\<close> (without its offset); \<open>LibError\<close> stands for an error of
  \<^verbatim>\<open>encoding/json\<close>, \<^verbatim>\<open>crypto/rsa\<close> or of the injected key fetcher.
\<close>

datatype err =
    LibError string
  | CorruptInputError
  | MalformedToken string
  | DecodeToken "string list" err
  | ExpectedAlgRS256 string
  | RetrieveKey err
  | MatchingKeyNotFound
  | VerifySignature err
  | InvalidIssuer
  | ClientIDDoesNotMatch
  | TokenExpired
  | TokenIssuedForFutureTime
  | Base64DecodeSignature string err
  | SignatureVerificationFailed err
  | Base64DecodeSegment string err
  | JsonDecodeSegment bytes err
  | FetchKey err
  | UpdateKeyCache err
  | UnableToParseJWKS err
  | MissingInfoInJWK jwk
  | Base64DecodeJwkN string err
  | Base64DecodeJwkE string err
  | NoPublicKeys jwks
  | DecodeJson err
  | EmptyKeyList

text \<open>
  The library functions the package calls but does not define are parameters: the JSON
  decoders for the three record shapes, SHA-256 and the PKCS#1 v1.5 check. \<open>'r\<close> is the
  type of the reader a key fetcher hands back.
\<close>

record 'r lib =
  json_Decode_jwks :: "'r \<Rightarrow> err + jwks"
  json_Unmarshal_Header :: "bytes \<Rightarrow> err + Header"
  json_Unmarshal_Claims :: "bytes \<Rightarrow> err + Claims"
  sha256_Sum256 :: "bytes \<Rightarrow> bytes"
  rsa_VerifyPKCS1v15 :: "PublicKey \<Rightarrow> bytes \<Rightarrow> bytes \<Rightarrow> err option"

text \<open>
  \<^verbatim>\<open>keyCache\<close>. The map is an association list with distinct keys, read by \<^const>\<open>map_of\<close>
  and written by \<^const>\<open>AList.update\<close>, so that \<^verbatim>\<open>len(m)\<close> is its length. The fetcher is an
  external, possibly stateful function: \<open>keyFetcher v n\<close> is what its call number \<open>n\<close>
  returns (reader, deadline, error), and \<open>fetched\<close> counts the calls made so far.
\<close>

record 'r keyCache =
  keyFetcher :: "nat \<Rightarrow> 'r \<times> time \<times> err option"
  publicKeys :: "(string \<times> PublicKey) list"
  keyExpire :: time
  fetched :: nat

record 'r Verifier =
  keys :: "'r keyCache"
  clientID :: string
  issuer :: string

text \<open>
  The three readings of \<^verbatim>\<open>time.Now()\<close> that one call of \<^verbatim>\<open>ParseAndVerify\<close> can make: in
  \<^verbatim>\<open>retrieveKey\<close>, at the expiry check and at the issued-at check (the last two through
  \<^verbatim>\<open>Unix()\<close>, in seconds).
\<close>

record clock =
  now_retrieveKey :: time
  now_exp :: int64
  now_iat :: int64

section \<open>Library functions with a fixed meaning\<close>

subsection \<open>\<^verbatim>\<open>strings.Split\<close> with a one-byte separator, \<^verbatim>\<open>strings.Join\<close>\<close>

fun Split :: "string \<Rightarrow> char \<Rightarrow> string list" where
  "Split [] sep = [[]]"
| "Split (c # cs) sep =
     (if c = sep then [] # Split cs sep
      else (case Split cs sep of
              [] \<Rightarrow> [[c]]
            | p # ps \<Rightarrow> (c # p) # ps))"

fun Join :: "string list \<Rightarrow> string \<Rightarrow> string" where
  "Join [] sep = []"
| "Join [p] sep = p"
| "Join (p # q # ps) sep = p @ sep @ Join (q # ps) sep"

subsection \<open>\<^verbatim>\<open>base64.RawURLEncoding.DecodeString\<close>\<close>

text \<open>
  The unpadded URL alphabet. The decoder skips carriage returns and line feeds, rejects
  every other byte outside the alphabet (the padding byte included) and a final group of
  one character; a final group of two or three characters gives one or two bytes.
\<close>

definition encodeURL :: string where
  "encodeURL = ''ABCDEFGHIJKLMNOPQRSTUVWXYZabcdefghijklmnopqrstuvwxyz0123456789-_''"

fun index_of :: "'a \<Rightarrow> 'a list \<Rightarrow> nat option" where
  "index_of x [] = None"
| "index_of x (y # ys) = (if x = y then Some 0 else map_option Suc (index_of x ys))"

definition decodeMap :: "char \<Rightarrow> nat option" where
  "decodeMap c = index_of c encodeURL"

fun decodeQuanta :: "nat list \<Rightarrow> bytes option" where
  "decodeQuanta [] = Some []"
| "decodeQuanta [a] = None"
| "decodeQuanta [a, b] = Some [word_of_nat (a * 4 + b div 16)]"
| "decodeQuanta [a, b, c] =
     Some [word_of_nat (a * 4 + b div 16), word_of_nat ((b mod 16) * 16 + c div 4)]"
| "decodeQuanta (a # b # c # d # rest) =
     map_option
       (\<lambda>out. word_of_nat (a * 4 + b div 16) # word_of_nat ((b mod 16) * 16 + c div 4)
                 # word_of_nat ((c mod 4) * 64 + d) # out)
       (decodeQuanta rest)"

fun those_digits :: "char list \<Rightarrow> nat list option" where
  "those_digits [] = Some []"
| "those_digits (c # cs) =
     (case decodeMap c of
        None \<Rightarrow> None
      | Some d \<Rightarrow> map_option ((#) d) (those_digits cs))"

definition DecodeString :: "string \<Rightarrow> err + bytes" where
  "DecodeString s =
     (case those_digits (filter (\<lambda>c. c \<noteq> CHR 0x0A \<and> c \<noteq> CHR 0x0D) s) of
        None \<Rightarrow> Inl CorruptInputError
      | Some ds \<Rightarrow> (case decodeQuanta ds of
                     None \<Rightarrow> Inl CorruptInputError
                   | Some out \<Rightarrow> Inr out))"

subsection \<open>\<^verbatim>\<open>big.Int\<close>: \<^verbatim>\<open>SetBytes\<close> and \<^verbatim>\<open>Int64\<close>\<close>

text \<open>
  \<^verbatim>\<open>SetBytes\<close> reads a big-endian unsigned integer; \<^verbatim>\<open>Int64\<close> keeps its low 64 bits.
\<close>

definition SetBytes :: "bytes \<Rightarrow> nat" where
  "SetBytes buf = foldl (\<lambda>acc b. acc * 256 + unat b) 0 buf"

definition Int64 :: "nat \<Rightarrow> int64" where
  "Int64 x = word_of_nat x"

section \<open>The key cache\<close>

definition parseJWKS :: "'r lib \<Rightarrow> 'r \<Rightarrow> err + jwks" where
  "parseJWKS L r =
     (case json_Decode_jwks L r of
        Inl e \<Rightarrow> Inl (DecodeJson e)
      | Inr ks \<Rightarrow> (if Keys ks = None then Inl EmptyKeyList else Inr ks))"

text \<open>The loop of \<^verbatim>\<open>UpdatePublicKey\<close> over \<^verbatim>\<open>jwks.Keys\<close>, filling the map \<open>m\<close>.\<close>

fun rangeKeys :: "jwk list \<Rightarrow> (string \<times> PublicKey) list \<Rightarrow> err + (string \<times> PublicKey) list" where
  "rangeKeys [] m = Inr m"
| "rangeKeys (v # vs) m =
     (if jwk_E v = [] \<or> jwk_N v = [] \<or> jwk_KID v = [] then Inl (MissingInfoInJWK v)
      else (case DecodeString (jwk_N v) of
              Inl e \<Rightarrow> Inl (Base64DecodeJwkN (jwk_N v) e)
            | Inr decodedN \<Rightarrow>
                (case DecodeString (jwk_E v) of
                   Inl e \<Rightarrow> Inl (Base64DecodeJwkE (jwk_E v) e)
                 | Inr decodedE \<Rightarrow>
                     rangeKeys vs
                       (AList.update (jwk_KID v)
                          \<lparr>pk_N = SetBytes decodedN, pk_E = Int64 (SetBytes decodedE)\<rparr> m))))"

definition UpdatePublicKey :: "'r lib \<Rightarrow> 'r keyCache \<Rightarrow> 'r \<Rightarrow> time \<Rightarrow> err option \<times> 'r keyCache" where
  "UpdatePublicKey L v jwksReader expiration =
     (case parseJWKS L jwksReader of
        Inl e \<Rightarrow> (Some (UnableToParseJWKS e), v)
      | Inr jwks \<Rightarrow>
          (case rangeKeys (case Keys jwks of None \<Rightarrow> [] | Some ks \<Rightarrow> ks) [] of
             Inl e \<Rightarrow> (Some e, v)
           | Inr m \<Rightarrow>
               (if length m = 0 then (Some (NoPublicKeys jwks), v)
                else (None, v\<lparr>publicKeys := m, keyExpire := expiration\<rparr>))))"

text \<open>
  \<^verbatim>\<open>retrieveKey\<close> returns the Go pair (key, error); \<open>now\<close> is its reading of
  \<^verbatim>\<open>time.Now()\<close>. A nil key is \<^const>\<open>None\<close>.
\<close>

definition retrieveKey ::
  "'r lib \<Rightarrow> 'r keyCache \<Rightarrow> string \<Rightarrow> time \<Rightarrow> (PublicKey option \<times> err option) \<times> 'r keyCache" where
  "retrieveKey L v kid now =
     (if keyExpire v < now then
        (case keyFetcher v (fetched v) of
           (reader, expires, ferr) \<Rightarrow>
             (let v1 = v\<lparr>fetched := Suc (fetched v)\<rparr> in
              case ferr of
                Some e \<Rightarrow> ((None, Some (FetchKey e)), v1)
              | None \<Rightarrow>
                  (case UpdatePublicKey L v1 reader expires of
                     (Some e, v2) \<Rightarrow> ((None, Some (UpdateKeyCache e)), v2)
                   | (None, v2) \<Rightarrow> ((map_of (publicKeys v2) kid, None), v2))))
      else ((map_of (publicKeys v) kid, None), v))"

section \<open>Token codec and signature check\<close>

definition bytes_of :: "string \<Rightarrow> bytes" where
  "bytes_of s = map of_char s"

definition verifySignature :: "'r lib \<Rightarrow> string \<Rightarrow> string \<Rightarrow> PublicKey \<Rightarrow> err option" where
  "verifySignature L signedString signature key =
     (case DecodeString signature of
        Inl e \<Rightarrow> Some (Base64DecodeSignature signature e)
      | Inr sig \<Rightarrow>
          (case rsa_VerifyPKCS1v15 L key (sha256_Sum256 L (bytes_of signedString)) sig of
             Some e \<Rightarrow> Some (SignatureVerificationFailed e)
           | None \<Rightarrow> None))"

text \<open>
  \<^verbatim>\<open>parseJWT\<close> returns either a nil token with an error or a token with a nil error, so
  its result is a sum.
\<close>

definition parseJWT :: "'r lib \<Rightarrow> string \<Rightarrow> string \<Rightarrow> string \<Rightarrow> err + JWT" where
  "parseJWT L header claims signature =
     (case DecodeString header of
        Inl e \<Rightarrow> Inl (Base64DecodeSegment header e)
      | Inr h \<Rightarrow>
          (case json_Unmarshal_Header L h of
             Inl e \<Rightarrow> Inl (JsonDecodeSegment h e)
           | Inr th \<Rightarrow>
               (case DecodeString claims of
                  Inl e \<Rightarrow> Inl (Base64DecodeSegment claims e)
                | Inr c \<Rightarrow>
                    (case json_Unmarshal_Claims L c of
                       Inl e \<Rightarrow> Inl (JsonDecodeSegment c e)
                     | Inr tc \<Rightarrow>
                         Inr \<lparr>Header = th, Claims = tc, Signature = signature\<rparr>))))"

section \<open>The orchestrator\<close>

text \<open>
  \<^verbatim>\<open>ParseAndVerify\<close> returns the Go pair (token pointer, error) and the verifier with
  its key cache as the call leaves it.
\<close>

definition ParseAndVerify ::
  "'r lib \<Rightarrow> clock \<Rightarrow> 'r Verifier \<Rightarrow> string \<Rightarrow> (JWT option \<times> err option) \<times> 'r Verifier" where
  "ParseAndVerify L clk v tokenString =
     (case Split tokenString (CHR ''.'') of
        [p0, p1, p2] \<Rightarrow>
          (case parseJWT L p0 p1 p2 of
             Inl e \<Rightarrow> ((None, Some (DecodeToken [p0, p1, p2] e)), v)
           | Inr parsedToken \<Rightarrow>
               (if ALG (Header parsedToken) \<noteq> ''RS256''
                then ((None, Some (ExpectedAlgRS256 (ALG (Header parsedToken)))), v)
                else
                  (case retrieveKey L (keys v) (KID (Header parsedToken)) (now_retrieveKey clk) of
                     ((key, kerr), kc) \<Rightarrow>
                       (let v' = v\<lparr>keys := kc\<rparr> in
                        case kerr of
                          Some e \<Rightarrow> ((None, Some (RetrieveKey e)), v')
                        | None \<Rightarrow>
                            (case key of
                               None \<Rightarrow> ((None, Some MatchingKeyNotFound), v')
                             | Some k \<Rightarrow>
                                 (case verifySignature L (Join [p0, p1] ''.'') p2 k of
                                    Some e \<Rightarrow> ((None, Some (VerifySignature e)), v')
                                  | None \<Rightarrow>
                                      (if ISS (Claims parsedToken) \<noteq> issuer v
                                       then ((None, Some InvalidIssuer), v')
                                       else if AUD (Claims parsedToken) \<noteq> clientID v
                                       then ((None, Some ClientIDDoesNotMatch), v')
                                       else if sint (EXP (Claims parsedToken)) \<le> sint (now_exp clk)
                                       then ((None, Some TokenExpired), v')
                                       else if sint (IAT (Claims parsedToken)) > sint (now_iat clk)
                                       then ((None, Some TokenIssuedForFutureTime), v')
                                       else ((Some parsedToken, None), v'))))))))
      | _ \<Rightarrow> ((None, Some (MalformedToken tokenString)), v))"

section \<open>The order of the checks, as specified\<close>

text \<open>
  The specification lists the checks of the orchestrator as nine steps in a fixed order.
  \<open>rejection\<close> is the verdict of one step taken on its own: the error it reports when it
  fails, \<^const>\<open>None\<close> when it passes or when the token did not split or decode, so that
  the step has nothing to look at. The key step and the signature step read the key that
  \<^verbatim>\<open>retrieveKey\<close> returns on the verifier's cache. \<open>first_rejection\<close> is the verdict of
  the first step of the order that fails.
\<close>

datatype step =
    SplitStep | DecodeStep | AlgStep | KeyStep | SignatureStep
  | IssuerStep | AudienceStep | ExpiryStep | IssuedAtStep

definition step_order :: "step list" where
  "step_order =
     [SplitStep, DecodeStep, AlgStep, KeyStep, SignatureStep,
      IssuerStep, AudienceStep, ExpiryStep, IssuedAtStep]"

definition decoded :: "'r lib \<Rightarrow> string \<Rightarrow> (string \<times> string \<times> string \<times> JWT) option" where
  "decoded L ts =
     (case Split ts (CHR ''.'') of
        [p0, p1, p2] \<Rightarrow>
          (case parseJWT L p0 p1 p2 of
             Inl e \<Rightarrow> None
           | Inr tok \<Rightarrow> Some (p0, p1, p2, tok))
      | _ \<Rightarrow> None)"

fun rejection :: "'r lib \<Rightarrow> clock \<Rightarrow> 'r Verifier \<Rightarrow> string \<Rightarrow> step \<Rightarrow> err option" where
  "rejection L clk v ts SplitStep =
     (if length (Split ts (CHR ''.'')) = 3 then None else Some (MalformedToken ts))"
| "rejection L clk v ts DecodeStep =
     (case Split ts (CHR ''.'') of
        [p0, p1, p2] \<Rightarrow>
          (case parseJWT L p0 p1 p2 of
             Inl e \<Rightarrow> Some (DecodeToken [p0, p1, p2] e)
           | Inr tok \<Rightarrow> None)
      | _ \<Rightarrow> None)"
| "rejection L clk v ts AlgStep =
     (case decoded L ts of
        None \<Rightarrow> None
      | Some (p0, p1, p2, tok) \<Rightarrow>
          (if ALG (Header tok) = ''RS256'' then None
           else Some (ExpectedAlgRS256 (ALG (Header tok)))))"
| "rejection L clk v ts KeyStep =
     (case decoded L ts of
        None \<Rightarrow> None
      | Some (p0, p1, p2, tok) \<Rightarrow>
          (case fst (retrieveKey L (keys v) (KID (Header tok)) (now_retrieveKey clk)) of
             (key, Some e) \<Rightarrow> Some (RetrieveKey e)
           | (None, None) \<Rightarrow> Some MatchingKeyNotFound
           | (Some k, None) \<Rightarrow> None))"
| "rejection L clk v ts SignatureStep =
     (case decoded L ts of
        None \<Rightarrow> None
      | Some (p0, p1, p2, tok) \<Rightarrow>
          (case fst (retrieveKey L (keys v) (KID (Header tok)) (now_retrieveKey clk)) of
             (Some k, None) \<Rightarrow> map_option VerifySignature (verifySignature L (Join [p0, p1] ''.'') p2 k)
           | _ \<Rightarrow> None))"
| "rejection L clk v ts IssuerStep =
     (case decoded L ts of
        None \<Rightarrow> None
      | Some (p0, p1, p2, tok) \<Rightarrow>
          (if ISS (Claims tok) = issuer v then None else Some InvalidIssuer))"
| "rejection L clk v ts AudienceStep =
     (case decoded L ts of
        None \<Rightarrow> None
      | Some (p0, p1, p2, tok) \<Rightarrow>
          (if AUD (Claims tok) = clientID v then None else Some ClientIDDoesNotMatch))"
| "rejection L clk v ts ExpiryStep =
     (case decoded L ts of
        None \<Rightarrow> None
      | Some (p0, p1, p2, tok) \<Rightarrow>
          (if sint (now_exp clk) < sint (EXP (Claims tok)) then None else Some TokenExpired))"
| "rejection L clk v ts IssuedAtStep =
     (case decoded L ts of
        None \<Rightarrow> None
      | Some (p0, p1, p2, tok) \<Rightarrow>
          (if sint (now_iat clk) < sint (IAT (Claims tok)) then Some TokenIssuedForFutureTime
           else None))"

definition first_rejection :: "'r lib \<Rightarrow> clock \<Rightarrow> 'r Verifier \<Rightarrow> string \<Rightarrow> err option" where
  "first_rejection L clk v ts =
     (case List.find (\<lambda>s. rejection L clk v ts s \<noteq> None) step_order of
        None \<Rightarrow> None
      | Some s \<Rightarrow> rejection L clk v ts s)"

section \<open>Concrete instances\<close>

text \<open>
  A small instance of the library parameters, used to evaluate the model: the reader is
  the decoded key-set document itself, the header decoder reads the algorithm and the
  claims decoder the issuer off the first byte, and the signature check accepts the
  one-byte signature 0.
\<close>

definition example_lib :: "(err + jwks) lib" where
  "example_lib =
     \<lparr>json_Decode_jwks = (\<lambda>r. r),
      json_Unmarshal_Header =
        (\<lambda>h. case h of
                [] \<Rightarrow> Inl (LibError ''unexpected end of JSON input'')
              | b # _ \<Rightarrow> Inr \<lparr>ALG = (if b = 0 then ''RS256'' else ''HS256''), KID = ''k1'', TYP = ''JWT''\<rparr>),
      json_Unmarshal_Claims =
        (\<lambda>c. case c of
                [] \<Rightarrow> Inl (LibError ''unexpected end of JSON input'')
              | b # _ \<Rightarrow>
                  Inr \<lparr>ISS = (if b = 0 then ''https://accounts.google.com'' else ''https://example.org''),
                       AZP = [], AUD = ''client-123'', SUB = ''1234'',
                       Email = [], EmailVerified = False, ATHash = [], Name = [], Picture = [],
                       GivenName = [], FamilyName = [], Locale = [], Nonce = [], Profile = [],
                       HD = [], IAT = 1000, EXP = 2000\<rparr>),
      sha256_Sum256 = (\<lambda>b. b),
      rsa_VerifyPKCS1v15 =
        (\<lambda>key hashed sig. if sig = [0] then None else Some (LibError ''crypto/rsa: verification error''))\<rparr>"

definition example_doc :: "err + jwks" where
  "example_doc = Inr \<lparr>Keys = Some [\<lparr>jwk_N = ''AQAB'', jwk_E = ''AQAB'', jwk_KID = ''k1''\<rparr>]\<rparr>"

definition example_key :: PublicKey where
  "example_key = \<lparr>pk_N = 65537, pk_E = 65537\<rparr>"

definition example_cache :: "(err + jwks) keyCache" where
  "example_cache =
     \<lparr>keyFetcher = (\<lambda>n. (example_doc, 100, None)),
      publicKeys = [(''k1'', example_key)],
      keyExpire = 10,
      fetched = 1\<rparr>"

definition failing_cache :: "(err + jwks) keyCache" where
  "failing_cache = example_cache\<lparr>keyFetcher := (\<lambda>n. (Inr \<lparr>Keys = Some []\<rparr>, 100, None))\<rparr>"

definition incomplete_doc :: "err + jwks" where
  "incomplete_doc =
     Inr \<lparr>Keys = Some [\<lparr>jwk_N = ''AQAB'', jwk_E = ''AQAB'', jwk_KID = ''k1''\<rparr>,
                        \<lparr>jwk_N = ''AQAB'', jwk_E = [], jwk_KID = []\<rparr>]\<rparr>"

definition other_key_cache :: "(err + jwks) keyCache" where
  "other_key_cache = example_cache\<lparr>publicKeys := [(''k2'', example_key)]\<rparr>"

definition example_verifier :: "(err + jwks) keyCache \<Rightarrow> (err + jwks) Verifier" where
  "example_verifier c = \<lparr>keys = c, clientID = ''client-123'', issuer = ''https://accounts.google.com''\<rparr>"

definition example_clock :: "time \<Rightarrow> int64 \<Rightarrow> clock" where
  "example_clock tr t = \<lparr>now_retrieveKey = tr, now_exp = t, now_iat = t\<rparr>"

definition example_token :: "string \<Rightarrow> JWT" where
  "example_token sig =
     \<lparr>Header = \<lparr>ALG = ''RS256'', KID = ''k1'', TYP = ''JWT''\<rparr>,
      Claims = \<lparr>ISS = ''https://accounts.google.com'', AZP = [], AUD = ''client-123'',
                SUB = ''1234'', Email = [], EmailVerified = False, ATHash = [], Name = [],
                Picture = [], GivenName = [], FamilyName = [], Locale = [], Nonce = [],
                Profile = [], HD = [], IAT = 1000, EXP = 2000\<rparr>,
      Signature = sig\<rparr>"

definition other_token :: "string \<Rightarrow> JWT" where
  "other_token sig =
     (example_token sig)
       \<lparr>Header := \<lparr>ALG = ''HS256'', KID = ''k1'', TYP = ''JWT''\<rparr>,
        Claims := (Claims (example_token sig))\<lparr>ISS := ''https://example.org''\<rparr>\<rparr>"

section \<open>Properties of the key cache\<close>

lemma UpdatePublicKey_error_keeps:
  "fst (UpdatePublicKey L v r t) \<noteq> None \<Longrightarrow> snd (UpdatePublicKey L v r t) = v"
  by (auto simp: UpdatePublicKey_def split: sum.splits if_splits)

lemma UpdatePublicKey_error_any_cache:
  "fst (UpdatePublicKey L v r t) = fst (UpdatePublicKey L v' r t')"
  by (auto simp: UpdatePublicKey_def split: sum.splits if_splits)

lemma UpdatePublicKey_fetched:
  "fetched (snd (UpdatePublicKey L v r t)) = fetched v"
  by (auto simp: UpdatePublicKey_def split: sum.splits if_splits)

lemma retrieveKey_fresh:
  "\<not> keyExpire v < now \<Longrightarrow> retrieveKey L v kid now = ((map_of (publicKeys v) kid, None), v)"
  by (simp add: retrieveKey_def)

lemma retrieveKey_fetch_error:
  "keyExpire v < now \<Longrightarrow> keyFetcher v (fetched v) = (reader, expires, Some e) \<Longrightarrow>
   retrieveKey L v kid now = ((None, Some (FetchKey e)), v\<lparr>fetched := Suc (fetched v)\<rparr>)"
  by (simp add: retrieveKey_def)

lemma retrieveKey_update_error:
  assumes "keyExpire v < now" and "keyFetcher v (fetched v) = (reader, expires, None)"
    and "fst (UpdatePublicKey L v reader expires) = Some e"
  shows "retrieveKey L v kid now = ((None, Some (UpdateKeyCache e)), v\<lparr>fetched := Suc (fetched v)\<rparr>)"
proof -
  let ?v1 = "v\<lparr>fetched := Suc (fetched v)\<rparr>"
  have e: "fst (UpdatePublicKey L ?v1 reader expires) = Some e"
    using assms(3) UpdatePublicKey_error_any_cache [of L ?v1 reader expires v expires] by simp
  then have "snd (UpdatePublicKey L ?v1 reader expires) = ?v1"
    using UpdatePublicKey_error_keeps [of L ?v1 reader expires] by simp
  with e have "UpdatePublicKey L ?v1 reader expires = (Some e, ?v1)"
    by (metis prod.collapse)
  with assms(1,2) show ?thesis by (simp add: retrieveKey_def)
qed

lemma retrieveKey_update_ok:
  assumes "keyExpire v < now" and "keyFetcher v (fetched v) = (reader, expires, None)"
    and "UpdatePublicKey L (v\<lparr>fetched := Suc (fetched v)\<rparr>) reader expires = (None, v2)"
  shows "retrieveKey L v kid now = ((map_of (publicKeys v2) kid, None), v2)"
  using assms by (simp add: retrieveKey_def)

lemma retrieveKey_fetched:
  "fetched (snd (retrieveKey L v kid now)) = (if keyExpire v < now then Suc (fetched v) else fetched v)"
proof (cases "keyExpire v < now")
  case False
  then show ?thesis by (simp add: retrieveKey_fresh)
next
  case True
  obtain reader expires ferr where f: "keyFetcher v (fetched v) = (reader, expires, ferr)"
    by (cases "keyFetcher v (fetched v)") auto
  show ?thesis
  proof (cases ferr)
    case (Some e)
    with True f show ?thesis by (simp add: retrieveKey_fetch_error)
  next
    case None
    obtain ue v2 where u: "UpdatePublicKey L (v\<lparr>fetched := Suc (fetched v)\<rparr>) reader expires = (ue, v2)"
      by (cases "UpdatePublicKey L (v\<lparr>fetched := Suc (fetched v)\<rparr>) reader expires") auto
    have "fetched v2 = Suc (fetched v)"
      using UpdatePublicKey_fetched [of L "v\<lparr>fetched := Suc (fetched v)\<rparr>" reader expires] u by simp
    with True f None u show ?thesis
      by (cases ue) (simp_all add: retrieveKey_def)
  qed
qed

text \<open>
  Claim C2, as amended: \<^verbatim>\<open>retrieveKey\<close> calls the injected fetch function exactly when
  the stored deadline lies strictly before its reading of the clock
  (\<^verbatim>\<open>keyExpire.Before(now)\<close>), and then exactly once; a lookup at the deadline itself
  does not fetch.
\<close>

theorem retrieveKey_fetches_iff_deadline_before_now:
  "(fetched (snd (retrieveKey L v kid now)) \<noteq> fetched v \<longleftrightarrow> keyExpire v < now)
   \<and> fetched (snd (retrieveKey L v kid now)) \<le> Suc (fetched v)
   \<and> (now = keyExpire v \<longrightarrow> retrieveKey L v kid now = ((map_of (publicKeys v) kid, None), v))"
proof -
  have "fetched (snd (retrieveKey L v kid now)) = (if keyExpire v < now then Suc (fetched v) else fetched v)"
    by (rule retrieveKey_fetched)
  moreover have "retrieveKey L v kid now = ((map_of (publicKeys v) kid, None), v)" if "now = keyExpire v"
    using that by (simp add: retrieveKey_fresh)
  ultimately show ?thesis by simp
qed

text \<open>
  Witness for claim C2 as amended: with the deadline at 10, a lookup at 11 fetches and a
  lookup at 10 returns the cached key and leaves the cache as it was.
\<close>

theorem retrieveKey_fetches_iff_deadline_before_now_witness:
  "keyExpire example_cache < 11
   \<and> fetched (snd (retrieveKey example_lib example_cache ''k1'' 11)) \<noteq> fetched example_cache
   \<and> keyExpire example_cache = 10
   \<and> retrieveKey example_lib example_cache ''k1'' 10 = ((Some example_key, None), example_cache)"
proof -
  have a: "keyExpire example_cache < 11" and b: "10 = keyExpire example_cache"
    by (simp_all add: example_cache_def)
  from retrieveKey_fetches_iff_deadline_before_now [of example_lib example_cache "''k1''" 11] a
  have "fetched (snd (retrieveKey example_lib example_cache ''k1'' 11)) \<noteq> fetched example_cache"
    by simp
  moreover
  from retrieveKey_fetches_iff_deadline_before_now [of example_lib example_cache "''k1''" 10] b
  have "retrieveKey example_lib example_cache ''k1'' 10
          = ((map_of (publicKeys example_cache) ''k1'', None), example_cache)"
    by simp
  then have "retrieveKey example_lib example_cache ''k1'' 10 = ((Some example_key, None), example_cache)"
    by (simp add: example_cache_def example_key_def)
  ultimately show ?thesis using a b by simp
qed

text \<open>
  Claim C2 as stated (a fetch if and only if \<open>now \<ge> deadline\<close>) fails for a lookup at
  the deadline: the deadline is 10, the clock reads 10, and no fetch is made.
\<close>

theorem retrieveKey_at_deadline_counterexample:
  "\<not> (fetched (snd (retrieveKey example_lib example_cache ''k1'' 10)) \<noteq> fetched example_cache
        \<longleftrightarrow> 10 \<ge> keyExpire example_cache)"
  by (simp add: retrieveKey_def example_cache_def)

text \<open>
  Claim C3: when the deadline has passed and the refresh fails, because the fetch function
  returns an error or because \<^verbatim>\<open>UpdatePublicKey\<close> rejects the fetched document for
  whatever reason, \<^verbatim>\<open>retrieveKey\<close> returns a nil key with an error (\<open>FetchKey\<close> or
  \<open>UpdateKeyCache\<close>), and the stored key map and deadline are as before.
\<close>

theorem failed_refresh_keeps_cache:
  assumes stale: "keyExpire v < now"
    and call: "keyFetcher v (fetched v) = (reader, expires, ferr)"
    and failed: "ferr \<noteq> None \<or> fst (UpdatePublicKey L v reader expires) \<noteq> None"
  shows "fst (fst (retrieveKey L v kid now)) = None
       \<and> ((\<exists>e. snd (fst (retrieveKey L v kid now)) = Some (FetchKey e))
          \<or> (\<exists>e. snd (fst (retrieveKey L v kid now)) = Some (UpdateKeyCache e)))
       \<and> publicKeys (snd (retrieveKey L v kid now)) = publicKeys v
       \<and> keyExpire (snd (retrieveKey L v kid now)) = keyExpire v"
proof (cases ferr)
  case (Some e)
  with stale call show ?thesis by (simp add: retrieveKey_fetch_error)
next
  case None
  with failed obtain e where "fst (UpdatePublicKey L v reader expires) = Some e" by auto
  with stale call None show ?thesis by (simp add: retrieveKey_update_error)
qed

text \<open>
  Witness for claim C3: the deadline 10 has passed at time 11 and the fetched document
  has an empty key list.
\<close>

theorem failed_refresh_keeps_cache_witness:
  "keyExpire failing_cache < 11
   \<and> keyFetcher failing_cache (fetched failing_cache) = (Inr \<lparr>Keys = Some []\<rparr>, 100, None)
   \<and> fst (UpdatePublicKey example_lib failing_cache (Inr \<lparr>Keys = Some []\<rparr>) 100) \<noteq> None
   \<and> fst (retrieveKey example_lib failing_cache ''k1'' 11)
       = (None, Some (UpdateKeyCache (NoPublicKeys \<lparr>Keys = Some []\<rparr>)))
   \<and> publicKeys (snd (retrieveKey example_lib failing_cache ''k1'' 11))
       = [(''k1'', example_key)]
   \<and> keyExpire (snd (retrieveKey example_lib failing_cache ''k1'' 11)) = 10"
proof -
  have s: "keyExpire failing_cache < 11"
    by (simp add: failing_cache_def example_cache_def)
  have c: "keyFetcher failing_cache (fetched failing_cache) = (Inr \<lparr>Keys = Some []\<rparr>, 100, None)"
    by (simp add: failing_cache_def example_cache_def)
  have u: "fst (UpdatePublicKey example_lib failing_cache (Inr \<lparr>Keys = Some []\<rparr>) 100) \<noteq> None"
    by (simp add: UpdatePublicKey_def parseJWKS_def example_lib_def)
  have r: "fst (retrieveKey example_lib failing_cache ''k1'' 11)
       = (None, Some (UpdateKeyCache (NoPublicKeys \<lparr>Keys = Some []\<rparr>)))"
    by (simp add: retrieveKey_def UpdatePublicKey_def parseJWKS_def example_lib_def
        failing_cache_def example_cache_def)
  from failed_refresh_keeps_cache [OF s c disjI2, OF u, of "''k1''"] s c u r show ?thesis
    by (simp add: failing_cache_def example_cache_def)
qed

section \<open>Properties of the key-set decoder\<close>

lemma DecodeString_AQAB: "DecodeString ''AQAB'' = Inr [1, 0, 1]"
  by code_simp

lemma rangeKeys_complete:
  assumes "\<forall>x\<in>set ks. jwk_KID x \<noteq> [] \<and> jwk_N x \<noteq> [] \<and> jwk_E x \<noteq> []
             \<and> (\<exists>b. DecodeString (jwk_N x) = Inr b) \<and> (\<exists>b. DecodeString (jwk_E x) = Inr b)"
  shows "\<exists>m'. rangeKeys ks m = Inr m' \<and> fst ` set m' = fst ` set m \<union> jwk_KID ` set ks"
  using assms
proof (induction ks arbitrary: m)
  case Nil
  then show ?case by simp
next
  case (Cons x ks)
  from Cons.prems obtain bn be where
    d: "DecodeString (jwk_N x) = Inr bn" "DecodeString (jwk_E x) = Inr be"
    and ne: "jwk_KID x \<noteq> []" "jwk_N x \<noteq> []" "jwk_E x \<noteq> []"
    by auto
  let ?m1 = "AList.update (jwk_KID x) \<lparr>pk_N = SetBytes bn, pk_E = Int64 (SetBytes be)\<rparr> m"
  from Cons.prems have "\<forall>y\<in>set ks. jwk_KID y \<noteq> [] \<and> jwk_N y \<noteq> [] \<and> jwk_E y \<noteq> []
             \<and> (\<exists>b. DecodeString (jwk_N y) = Inr b) \<and> (\<exists>b. DecodeString (jwk_E y) = Inr b)"
    by simp
  from Cons.IH [OF this, of ?m1] obtain m' where
    m': "rangeKeys ks ?m1 = Inr m'" "fst ` set m' = fst ` set ?m1 \<union> jwk_KID ` set ks"
    by blast
  have "rangeKeys (x # ks) m = rangeKeys ks ?m1"
    using d ne by simp
  moreover have "fst ` set ?m1 = {jwk_KID x} \<union> fst ` set m"
    by (rule dom_update)
  ultimately show ?case using m' by auto
qed

lemma rangeKeys_nonempty:
  "rangeKeys ks m = Inr m' \<Longrightarrow> ks \<noteq> [] \<or> m \<noteq> [] \<Longrightarrow> m' \<noteq> []"
proof (induction ks arbitrary: m)
  case Nil
  then show ?case by simp
next
  case (Cons x ks)
  from Cons.prems(1) obtain bn be where
    step: "rangeKeys ks (AList.update (jwk_KID x) \<lparr>pk_N = SetBytes bn, pk_E = Int64 (SetBytes be)\<rparr> m) = Inr m'"
    by (auto split: if_splits sum.splits)
  have "AList.update (jwk_KID x) \<lparr>pk_N = SetBytes bn, pk_E = Int64 (SetBytes be)\<rparr> m \<noteq> []"
    by (cases m) (auto split: if_splits)
  with Cons.IH [OF step] show ?case by simp
qed

lemma rangeKeys_incomplete:
  assumes "\<exists>x\<in>set ks. jwk_KID x = [] \<or> jwk_N x = [] \<or> jwk_E x = []"
  shows "(\<exists>x. rangeKeys ks m = Inl (MissingInfoInJWK x))
       \<or> (\<exists>s e. rangeKeys ks m = Inl (Base64DecodeJwkN s e))
       \<or> (\<exists>s e. rangeKeys ks m = Inl (Base64DecodeJwkE s e))"
  using assms
proof (induction ks arbitrary: m)
  case Nil
  then show ?case by simp
next
  case (Cons y ks)
  show ?case
  proof (cases "jwk_E y = [] \<or> jwk_N y = [] \<or> jwk_KID y = []")
    case True
    then show ?thesis by simp
  next
    case False
    with Cons.prems have rest: "\<exists>x\<in>set ks. jwk_KID x = [] \<or> jwk_N x = [] \<or> jwk_E x = []"
      by auto
    show ?thesis
    proof (cases "DecodeString (jwk_N y)")
      case (Inl e)
      with False show ?thesis by simp
    next
      case n: (Inr bn)
      show ?thesis
      proof (cases "DecodeString (jwk_E y)")
        case (Inl e)
        with False n show ?thesis by simp
      next
        case (Inr be)
        with False n Cons.IH [OF rest] show ?thesis by simp
      qed
    qed
  qed
qed

lemma rangeKeys_first_incomplete:
  assumes "\<forall>y\<in>set pre. jwk_KID y \<noteq> [] \<and> jwk_N y \<noteq> [] \<and> jwk_E y \<noteq> []
             \<and> (\<exists>b. DecodeString (jwk_N y) = Inr b) \<and> (\<exists>b. DecodeString (jwk_E y) = Inr b)"
    and "jwk_KID x = [] \<or> jwk_N x = [] \<or> jwk_E x = []"
  shows "rangeKeys (pre @ x # post) m = Inl (MissingInfoInJWK x)"
  using assms
proof (induction pre arbitrary: m)
  case Nil
  then show ?case by auto
next
  case (Cons y pre)
  from Cons.prems(1) obtain bn be where
    d: "DecodeString (jwk_N y) = Inr bn" "DecodeString (jwk_E y) = Inr be"
    and ne: "jwk_KID y \<noteq> []" "jwk_N y \<noteq> []" "jwk_E y \<noteq> []"
    by auto
  from Cons.prems(1) have "\<forall>y\<in>set pre. jwk_KID y \<noteq> [] \<and> jwk_N y \<noteq> [] \<and> jwk_E y \<noteq> []
             \<and> (\<exists>b. DecodeString (jwk_N y) = Inr b) \<and> (\<exists>b. DecodeString (jwk_E y) = Inr b)"
    by simp
  from Cons.IH [OF this Cons.prems(2)] d ne show ?case by simp
qed

lemma UpdatePublicKey_unparseable:
  "json_Decode_jwks L r = Inl e \<Longrightarrow>
   UpdatePublicKey L v r t = (Some (UnableToParseJWKS (DecodeJson e)), v)"
  by (simp add: UpdatePublicKey_def parseJWKS_def)

lemma UpdatePublicKey_nil_list:
  "json_Decode_jwks L r = Inr d \<Longrightarrow> Keys d = None \<Longrightarrow>
   UpdatePublicKey L v r t = (Some (UnableToParseJWKS EmptyKeyList), v)"
  by (simp add: UpdatePublicKey_def parseJWKS_def)

lemma UpdatePublicKey_list:
  "json_Decode_jwks L r = Inr d \<Longrightarrow> Keys d = Some ks \<Longrightarrow>
   UpdatePublicKey L v r t =
     (case rangeKeys ks [] of
        Inl e \<Rightarrow> (Some e, v)
      | Inr m \<Rightarrow> (if length m = 0 then (Some (NoPublicKeys d), v)
                 else (None, v\<lparr>publicKeys := m, keyExpire := t\<rparr>)))"
  by (simp add: UpdatePublicKey_def parseJWKS_def)

text \<open>
  Claim C8: \<^verbatim>\<open>UpdatePublicKey\<close>, the key-set decoder, fails on (a) a document with an
  entry whose identifier, modulus or exponent is empty, (b) a parseable document whose key
  list is nil or has no entries, and (c) a document that does not parse; the three errors
  are pairwise different, and in each case the cache is returned as it was. The error of
  (a) is one of the entry errors of the loop; it is \<open>MissingInfoInJWK\<close> for the entry with
  the empty field when every entry before it is complete and decodes. The error of (b) is
  \<open>EmptyKeyList\<close> (wrapped by \<open>UnableToParseJWKS\<close>) for a nil list and \<open>NoPublicKeys\<close> for
  an empty one; the error of (c) is \<open>DecodeJson\<close> (wrapped by \<open>UnableToParseJWKS\<close>).
\<close>

theorem key_set_decoder_rejections:
  assumes a: "json_Decode_jwks L ra = Inr da" "Keys da = Some ka"
             "\<exists>x\<in>set ka. jwk_KID x = [] \<or> jwk_N x = [] \<or> jwk_E x = []"
    and b: "json_Decode_jwks L rb = Inr db" "Keys db = None \<or> Keys db = Some []"
    and c: "json_Decode_jwks L rc = Inl e"
  shows "\<exists>ea eb ec.
           UpdatePublicKey L v ra t = (Some ea, v)
         \<and> UpdatePublicKey L v rb t = (Some eb, v)
         \<and> UpdatePublicKey L v rc t = (Some ec, v)
         \<and> ea \<noteq> eb \<and> ea \<noteq> ec \<and> eb \<noteq> ec
         \<and> ((\<exists>x. ea = MissingInfoInJWK x) \<or> (\<exists>s e'. ea = Base64DecodeJwkN s e')
              \<or> (\<exists>s e'. ea = Base64DecodeJwkE s e'))
         \<and> (\<forall>pre x post.
               ka = pre @ x # post
               \<and> (jwk_KID x = [] \<or> jwk_N x = [] \<or> jwk_E x = [])
               \<and> (\<forall>y\<in>set pre. jwk_KID y \<noteq> [] \<and> jwk_N y \<noteq> [] \<and> jwk_E y \<noteq> []
                     \<and> (\<exists>b. DecodeString (jwk_N y) = Inr b) \<and> (\<exists>b. DecodeString (jwk_E y) = Inr b))
               \<longrightarrow> ea = MissingInfoInJWK x)
         \<and> (eb = UnableToParseJWKS EmptyKeyList \<or> eb = NoPublicKeys db)
         \<and> ec = UnableToParseJWKS (DecodeJson e)"
proof -
  from rangeKeys_incomplete [OF a(3), of "[]"] obtain ea where
    ea: "rangeKeys ka [] = Inl ea"
    and kind: "(\<exists>x. ea = MissingInfoInJWK x) \<or> (\<exists>s e'. ea = Base64DecodeJwkN s e')
              \<or> (\<exists>s e'. ea = Base64DecodeJwkE s e')"
    by auto
  have ua: "UpdatePublicKey L v ra t = (Some ea, v)"
    using a(1,2) ea by (simp add: UpdatePublicKey_list)
  have first: "ea = MissingInfoInJWK x"
    if "ka = pre @ x # post" "jwk_KID x = [] \<or> jwk_N x = [] \<or> jwk_E x = []"
       "\<forall>y\<in>set pre. jwk_KID y \<noteq> [] \<and> jwk_N y \<noteq> [] \<and> jwk_E y \<noteq> []
             \<and> (\<exists>b. DecodeString (jwk_N y) = Inr b) \<and> (\<exists>b. DecodeString (jwk_E y) = Inr b)"
    for pre x post
    using rangeKeys_first_incomplete [OF that(3) that(2), of post "[]"] that(1) ea by simp
  obtain eb where ub: "UpdatePublicKey L v rb t = (Some eb, v)"
    and kb: "eb = UnableToParseJWKS EmptyKeyList \<or> eb = NoPublicKeys db"
    using b by (auto simp: UpdatePublicKey_nil_list UpdatePublicKey_list)
  have uc: "UpdatePublicKey L v rc t = (Some (UnableToParseJWKS (DecodeJson e)), v)"
    using c by (rule UpdatePublicKey_unparseable)
  have "ea \<noteq> eb" "ea \<noteq> UnableToParseJWKS (DecodeJson e)" "eb \<noteq> UnableToParseJWKS (DecodeJson e)"
    using kind kb by auto
  with ua ub uc kind kb first show ?thesis by blast
qed

text \<open>
  Claim C9: for a document that parses, has at least one entry, and in which every entry
  has a non-empty identifier, modulus and exponent whose modulus and exponent decode as
  unpadded base64url, \<^verbatim>\<open>UpdatePublicKey\<close> succeeds and the identifiers of the installed
  key map are exactly the identifiers of the document's entries.
\<close>

theorem key_set_decoder_identifiers:
  assumes doc: "json_Decode_jwks L r = Inr d" "Keys d = Some ks"
    and nonempty: "ks \<noteq> []"
    and complete: "\<forall>x\<in>set ks. jwk_KID x \<noteq> [] \<and> jwk_N x \<noteq> [] \<and> jwk_E x \<noteq> []
             \<and> (\<exists>b. DecodeString (jwk_N x) = Inr b) \<and> (\<exists>b. DecodeString (jwk_E x) = Inr b)"
  shows "fst (UpdatePublicKey L v r t) = None
       \<and> dom (map_of (publicKeys (snd (UpdatePublicKey L v r t)))) = jwk_KID ` set ks
       \<and> keyExpire (snd (UpdatePublicKey L v r t)) = t"
proof -
  from rangeKeys_complete [OF complete, of "[]"] obtain m where
    m: "rangeKeys ks [] = Inr m" "fst ` set m = jwk_KID ` set ks"
    by auto
  from rangeKeys_nonempty [OF m(1)] nonempty have "m \<noteq> []" by simp
  with doc m show ?thesis
    by (simp add: UpdatePublicKey_list dom_map_of_conv_image_fst)
qed


text \<open>
  Witness for claim C8: a document whose second entry lacks exponent and identifier, a
  document with an empty key list, and a reader whose content does not parse.
\<close>

theorem key_set_decoder_rejections_witness:
  "UpdatePublicKey example_lib example_cache incomplete_doc 100
     = (Some (MissingInfoInJWK \<lparr>jwk_N = ''AQAB'', jwk_E = [], jwk_KID = []\<rparr>), example_cache)
   \<and> UpdatePublicKey example_lib example_cache (Inr \<lparr>Keys = Some []\<rparr>) 100
     = (Some (NoPublicKeys \<lparr>Keys = Some []\<rparr>), example_cache)
   \<and> UpdatePublicKey example_lib example_cache (Inl (LibError ''unexpected EOF'')) 100
     = (Some (UnableToParseJWKS (DecodeJson (LibError ''unexpected EOF''))), example_cache)"
proof -
  let ?k1 = "\<lparr>jwk_N = ''AQAB'', jwk_E = ''AQAB'', jwk_KID = ''k1''\<rparr>"
  let ?k2 = "\<lparr>jwk_N = ''AQAB'', jwk_E = [], jwk_KID = []\<rparr>"
  let ?da = "\<lparr>Keys = Some [?k1, ?k2]\<rparr>"
  let ?db = "\<lparr>Keys = Some []\<rparr>"
  have a1: "json_Decode_jwks example_lib incomplete_doc = Inr ?da"
    by (simp add: example_lib_def incomplete_doc_def)
  have a2: "Keys ?da = Some [?k1, ?k2]" by simp
  have a3: "\<exists>x\<in>set [?k1, ?k2]. jwk_KID x = [] \<or> jwk_N x = [] \<or> jwk_E x = []" by simp
  have b1: "json_Decode_jwks example_lib (Inr ?db) = Inr ?db"
    by (simp add: example_lib_def)
  have b2: "Keys ?db = None \<or> Keys ?db = Some []" by simp
  have c1: "json_Decode_jwks example_lib (Inl (LibError ''unexpected EOF'')) = Inl (LibError ''unexpected EOF'')"
    by (simp add: example_lib_def)
  from key_set_decoder_rejections [OF a1 a2 a3 b1 b2 c1, of example_cache 100]
  obtain ea eb ec where
    u: "UpdatePublicKey example_lib example_cache incomplete_doc 100 = (Some ea, example_cache)"
       "UpdatePublicKey example_lib example_cache (Inr ?db) 100 = (Some eb, example_cache)"
       "UpdatePublicKey example_lib example_cache (Inl (LibError ''unexpected EOF'')) 100 = (Some ec, example_cache)"
    and first: "\<forall>pre x post.
               [?k1, ?k2] = pre @ x # post
               \<and> (jwk_KID x = [] \<or> jwk_N x = [] \<or> jwk_E x = [])
               \<and> (\<forall>y\<in>set pre. jwk_KID y \<noteq> [] \<and> jwk_N y \<noteq> [] \<and> jwk_E y \<noteq> []
                     \<and> (\<exists>b. DecodeString (jwk_N y) = Inr b) \<and> (\<exists>b. DecodeString (jwk_E y) = Inr b))
               \<longrightarrow> ea = MissingInfoInJWK x"
    and kb: "eb = UnableToParseJWKS EmptyKeyList \<or> eb = NoPublicKeys ?db"
    and kc: "ec = UnableToParseJWKS (DecodeJson (LibError ''unexpected EOF''))"
    by blast
  have "[?k1, ?k2] = [?k1] @ ?k2 # []
        \<and> (jwk_KID ?k2 = [] \<or> jwk_N ?k2 = [] \<or> jwk_E ?k2 = [])
        \<and> (\<forall>y\<in>set [?k1]. jwk_KID y \<noteq> [] \<and> jwk_N y \<noteq> [] \<and> jwk_E y \<noteq> []
               \<and> (\<exists>b. DecodeString (jwk_N y) = Inr b) \<and> (\<exists>b. DecodeString (jwk_E y) = Inr b))"
    by (simp add: DecodeString_AQAB)
  with first have ea: "ea = MissingInfoInJWK ?k2" by blast
  have "eb = NoPublicKeys ?db"
    using u(2) by (simp add: UpdatePublicKey_def parseJWKS_def example_lib_def)
  with u ea kc show ?thesis by simp
qed

text \<open>Witness for claim C9: the document with the single key \<open>k1\<close>.\<close>

theorem key_set_decoder_identifiers_witness:
  "fst (UpdatePublicKey example_lib example_cache example_doc 200) = None
   \<and> dom (map_of (publicKeys (snd (UpdatePublicKey example_lib example_cache example_doc 200)))) = {''k1''}
   \<and> keyExpire (snd (UpdatePublicKey example_lib example_cache example_doc 200)) = 200"
proof -
  let ?k1 = "\<lparr>jwk_N = ''AQAB'', jwk_E = ''AQAB'', jwk_KID = ''k1''\<rparr>"
  have d: "json_Decode_jwks example_lib example_doc = Inr \<lparr>Keys = Some [?k1]\<rparr>"
    by (simp add: example_lib_def example_doc_def)
  have k: "Keys \<lparr>Keys = Some [?k1]\<rparr> = Some [?k1]" by simp
  have n: "[?k1] \<noteq> []" by simp
  have c: "\<forall>x\<in>set [?k1]. jwk_KID x \<noteq> [] \<and> jwk_N x \<noteq> [] \<and> jwk_E x \<noteq> []
             \<and> (\<exists>b. DecodeString (jwk_N x) = Inr b) \<and> (\<exists>b. DecodeString (jwk_E x) = Inr b)"
    by (simp add: DecodeString_AQAB)
  from key_set_decoder_identifiers [OF d k n c, of example_cache 200] show ?thesis by simp
qed

section \<open>Properties of the orchestrator\<close>

lemma case_three_other:
  "length xs \<noteq> 3 \<Longrightarrow> (case xs of [a, b, c] \<Rightarrow> f a b c | _ \<Rightarrow> g) = g"
  by (auto split: list.splits)

lemma length_three:
  "length xs = 3 \<Longrightarrow> \<exists>a b c. xs = [a, b, c]"
  by (auto simp: numeral_3_eq_3 length_Suc_conv)

lemma ParseAndVerify_split_fail:
  "length (Split ts (CHR ''.'')) \<noteq> 3 \<Longrightarrow>
   ParseAndVerify L clk v ts = ((None, Some (MalformedToken ts)), v)"
  unfolding ParseAndVerify_def by (rule case_three_other)

lemma ParseAndVerify_decode_fail:
  "Split ts (CHR ''.'') = [p0, p1, p2] \<Longrightarrow> parseJWT L p0 p1 p2 = Inl e \<Longrightarrow>
   ParseAndVerify L clk v ts = ((None, Some (DecodeToken [p0, p1, p2] e)), v)"
  by (simp add: ParseAndVerify_def)

lemma ParseAndVerify_alg_fail:
  "Split ts (CHR ''.'') = [p0, p1, p2] \<Longrightarrow> parseJWT L p0 p1 p2 = Inr tok \<Longrightarrow>
   ALG (Header tok) \<noteq> ''RS256'' \<Longrightarrow>
   ParseAndVerify L clk v ts = ((None, Some (ExpectedAlgRS256 (ALG (Header tok)))), v)"
  by (simp add: ParseAndVerify_def)

lemma ParseAndVerify_key_error:
  "Split ts (CHR ''.'') = [p0, p1, p2] \<Longrightarrow> parseJWT L p0 p1 p2 = Inr tok \<Longrightarrow>
   ALG (Header tok) = ''RS256'' \<Longrightarrow>
   retrieveKey L (keys v) (KID (Header tok)) (now_retrieveKey clk) = ((key, Some e), kc) \<Longrightarrow>
   ParseAndVerify L clk v ts = ((None, Some (RetrieveKey e)), v\<lparr>keys := kc\<rparr>)"
  by (simp add: ParseAndVerify_def)

lemma ParseAndVerify_key_nil:
  "Split ts (CHR ''.'') = [p0, p1, p2] \<Longrightarrow> parseJWT L p0 p1 p2 = Inr tok \<Longrightarrow>
   ALG (Header tok) = ''RS256'' \<Longrightarrow>
   retrieveKey L (keys v) (KID (Header tok)) (now_retrieveKey clk) = ((None, None), kc) \<Longrightarrow>
   ParseAndVerify L clk v ts = ((None, Some MatchingKeyNotFound), v\<lparr>keys := kc\<rparr>)"
  by (simp add: ParseAndVerify_def)

lemma ParseAndVerify_signature_fail:
  "Split ts (CHR ''.'') = [p0, p1, p2] \<Longrightarrow> parseJWT L p0 p1 p2 = Inr tok \<Longrightarrow>
   ALG (Header tok) = ''RS256'' \<Longrightarrow>
   retrieveKey L (keys v) (KID (Header tok)) (now_retrieveKey clk) = ((Some k, None), kc) \<Longrightarrow>
   verifySignature L (Join [p0, p1] ''.'') p2 k = Some e \<Longrightarrow>
   ParseAndVerify L clk v ts = ((None, Some (VerifySignature e)), v\<lparr>keys := kc\<rparr>)"
  by (simp add: ParseAndVerify_def)

lemma ParseAndVerify_claims:
  "Split ts (CHR ''.'') = [p0, p1, p2] \<Longrightarrow> parseJWT L p0 p1 p2 = Inr tok \<Longrightarrow>
   ALG (Header tok) = ''RS256'' \<Longrightarrow>
   retrieveKey L (keys v) (KID (Header tok)) (now_retrieveKey clk) = ((Some k, None), kc) \<Longrightarrow>
   verifySignature L (Join [p0, p1] ''.'') p2 k = None \<Longrightarrow>
   ParseAndVerify L clk v ts =
     (if ISS (Claims tok) \<noteq> issuer v then ((None, Some InvalidIssuer), v\<lparr>keys := kc\<rparr>)
      else if AUD (Claims tok) \<noteq> clientID v then ((None, Some ClientIDDoesNotMatch), v\<lparr>keys := kc\<rparr>)
      else if sint (EXP (Claims tok)) \<le> sint (now_exp clk) then ((None, Some TokenExpired), v\<lparr>keys := kc\<rparr>)
      else if sint (IAT (Claims tok)) > sint (now_iat clk)
      then ((None, Some TokenIssuedForFutureTime), v\<lparr>keys := kc\<rparr>)
      else ((Some tok, None), v\<lparr>keys := kc\<rparr>))"
  by (simp add: ParseAndVerify_def)

lemma ParseAndVerify_cases [case_names split decode alg key_error key_nil signature claims]:
  obtains
    "length (Split ts (CHR ''.'')) \<noteq> 3"
    "ParseAndVerify L clk v ts = ((None, Some (MalformedToken ts)), v)"
  | p0 p1 p2 e where
    "Split ts (CHR ''.'') = [p0, p1, p2]" "parseJWT L p0 p1 p2 = Inl e"
    "ParseAndVerify L clk v ts = ((None, Some (DecodeToken [p0, p1, p2] e)), v)"
  | p0 p1 p2 tok where
    "Split ts (CHR ''.'') = [p0, p1, p2]" "parseJWT L p0 p1 p2 = Inr tok"
    "ALG (Header tok) \<noteq> ''RS256''"
    "ParseAndVerify L clk v ts = ((None, Some (ExpectedAlgRS256 (ALG (Header tok)))), v)"
  | p0 p1 p2 tok key e kc where
    "Split ts (CHR ''.'') = [p0, p1, p2]" "parseJWT L p0 p1 p2 = Inr tok"
    "ALG (Header tok) = ''RS256''"
    "retrieveKey L (keys v) (KID (Header tok)) (now_retrieveKey clk) = ((key, Some e), kc)"
    "ParseAndVerify L clk v ts = ((None, Some (RetrieveKey e)), v\<lparr>keys := kc\<rparr>)"
  | p0 p1 p2 tok kc where
    "Split ts (CHR ''.'') = [p0, p1, p2]" "parseJWT L p0 p1 p2 = Inr tok"
    "ALG (Header tok) = ''RS256''"
    "retrieveKey L (keys v) (KID (Header tok)) (now_retrieveKey clk) = ((None, None), kc)"
    "ParseAndVerify L clk v ts = ((None, Some MatchingKeyNotFound), v\<lparr>keys := kc\<rparr>)"
  | p0 p1 p2 tok k kc e where
    "Split ts (CHR ''.'') = [p0, p1, p2]" "parseJWT L p0 p1 p2 = Inr tok"
    "ALG (Header tok) = ''RS256''"
    "retrieveKey L (keys v) (KID (Header tok)) (now_retrieveKey clk) = ((Some k, None), kc)"
    "verifySignature L (Join [p0, p1] ''.'') p2 k = Some e"
    "ParseAndVerify L clk v ts = ((None, Some (VerifySignature e)), v\<lparr>keys := kc\<rparr>)"
  | p0 p1 p2 tok k kc where
    "Split ts (CHR ''.'') = [p0, p1, p2]" "parseJWT L p0 p1 p2 = Inr tok"
    "ALG (Header tok) = ''RS256''"
    "retrieveKey L (keys v) (KID (Header tok)) (now_retrieveKey clk) = ((Some k, None), kc)"
    "verifySignature L (Join [p0, p1] ''.'') p2 k = None"
    "ParseAndVerify L clk v ts =
       (if ISS (Claims tok) \<noteq> issuer v then ((None, Some InvalidIssuer), v\<lparr>keys := kc\<rparr>)
        else if AUD (Claims tok) \<noteq> clientID v then ((None, Some ClientIDDoesNotMatch), v\<lparr>keys := kc\<rparr>)
        else if sint (EXP (Claims tok)) \<le> sint (now_exp clk) then ((None, Some TokenExpired), v\<lparr>keys := kc\<rparr>)
        else if sint (IAT (Claims tok)) > sint (now_iat clk)
        then ((None, Some TokenIssuedForFutureTime), v\<lparr>keys := kc\<rparr>)
        else ((Some tok, None), v\<lparr>keys := kc\<rparr>))"
proof (cases "length (Split ts (CHR ''.'')) = 3")
  case False
  then show ?thesis using that(1) by (simp add: ParseAndVerify_split_fail)
next
  case True
  then obtain p0 p1 p2 where s: "Split ts (CHR ''.'') = [p0, p1, p2]"
    using length_three by blast
  show ?thesis
  proof (cases "parseJWT L p0 p1 p2")
    case (Inl e)
    with s show ?thesis using that(2) by (simp add: ParseAndVerify_decode_fail)
  next
    case (Inr tok)
    show ?thesis
    proof (cases "ALG (Header tok) = ''RS256''")
      case False
      with s Inr show ?thesis using that(3) by (simp add: ParseAndVerify_alg_fail)
    next
      case alg: True
      obtain key kerr kc where
        r: "retrieveKey L (keys v) (KID (Header tok)) (now_retrieveKey clk) = ((key, kerr), kc)"
        by (metis prod.collapse)
      show ?thesis
      proof (cases kerr)
        case (Some e)
        with s Inr alg r show ?thesis
          using that(4) [of p0 p1 p2 tok key e kc] by (simp add: ParseAndVerify_key_error)
      next
        case None
        show ?thesis
        proof (cases key)
          case knil: None
          with s Inr alg r None show ?thesis
            using that(5) [of p0 p1 p2 tok kc] by (simp add: ParseAndVerify_key_nil)
        next
          case (Some k)
          show ?thesis
          proof (cases "verifySignature L (Join [p0, p1] ''.'') p2 k")
            case (Some e)
            with s Inr alg r None \<open>key = Some k\<close> show ?thesis
              using that(6) [of p0 p1 p2 tok k kc e] by (simp add: ParseAndVerify_signature_fail)
          next
            case vnone: None
            with s Inr alg r None \<open>key = Some k\<close> show ?thesis
              using that(7) [of p0 p1 p2 tok k kc] by (simp add: ParseAndVerify_claims)
          qed
        qed
      qed
    qed
  qed
qed

lemma decoded_ok:
  "Split ts (CHR ''.'') = [p0, p1, p2] \<Longrightarrow> parseJWT L p0 p1 p2 = Inr tok \<Longrightarrow>
   decoded L ts = Some (p0, p1, p2, tok)"
  by (simp add: decoded_def)

lemma parseJWT_signature:
  "parseJWT L header claims signature =
     (case parseJWT L header claims signature' of
        Inl e \<Rightarrow> Inl e
      | Inr tok \<Rightarrow> Inr (tok\<lparr>Signature := signature\<rparr>))"
  by (simp add: parseJWT_def split: sum.splits)

text \<open>
  Claim C1: the error that \<^verbatim>\<open>ParseAndVerify\<close> returns is the rejection of the first
  step, in the order split, decode, algorithm, key resolution, signature, issuer,
  audience, expiry, issued-at, that fails, whichever later steps would fail as well; and
  when the split, the decoding or the algorithm check fails, the verifier and its key
  cache are returned as they were: no lookup and no fetch has been made.
\<close>

theorem ParseAndVerify_reports_first_rejection:
  "snd (fst (ParseAndVerify L clk v ts)) = first_rejection L clk v ts
   \<and> (rejection L clk v ts SplitStep \<noteq> None \<or> rejection L clk v ts DecodeStep \<noteq> None
        \<or> rejection L clk v ts AlgStep \<noteq> None
      \<longrightarrow> snd (ParseAndVerify L clk v ts) = v)"
proof (cases rule: ParseAndVerify_cases [of ts L clk v])
  case split
  then show ?thesis
    by (simp add: first_rejection_def step_order_def)
next
  case (decode p0 p1 p2 e)
  then show ?thesis
    by (simp add: first_rejection_def step_order_def)
next
  case (alg p0 p1 p2 tok)
  then show ?thesis
    by (simp add: decoded_ok first_rejection_def step_order_def)
next
  case (key_error p0 p1 p2 tok key e kc)
  then show ?thesis
    by (cases key) (simp_all add: decoded_ok first_rejection_def step_order_def)
next
  case (key_nil p0 p1 p2 tok kc)
  then show ?thesis
    by (simp add: decoded_ok first_rejection_def step_order_def)
next
  case (signature p0 p1 p2 tok k kc e)
  then show ?thesis
    by (simp add: decoded_ok first_rejection_def step_order_def)
next
  case (claims p0 p1 p2 tok k kc)
  then show ?thesis
    by (simp add: decoded_ok first_rejection_def step_order_def)
qed

text \<open>
  Claim C10: whenever \<^verbatim>\<open>ParseAndVerify\<close> returns a non-nil error, the token pointer it
  returns is nil, also for the failures that come after decoding.
\<close>

theorem ParseAndVerify_error_nil_token:
  "snd (fst (ParseAndVerify L clk v ts)) \<noteq> None \<Longrightarrow> fst (fst (ParseAndVerify L clk v ts)) = None"
  by (cases rule: ParseAndVerify_cases [of ts L clk v]) (auto split: if_splits)

text \<open>
  Claim C4: a token string that splits into three segments with an empty third one is
  not rejected as malformed by the split; \<^verbatim>\<open>parseJWT\<close> gives for the empty signature
  what it gives for any other signature \<open>sig\<close>, with the signature field empty; and when
  the first two segments decode, \<^verbatim>\<open>ParseAndVerify\<close> does not report a decoding error
  either, so that any rejection comes from a later check.
\<close>

theorem empty_signature_passes_decoding:
  assumes "Split ts (CHR ''.'') = [p0, p1, []]"
  shows "snd (fst (ParseAndVerify L clk v ts)) \<noteq> Some (MalformedToken ts)
       \<and> parseJWT L p0 p1 [] =
           (case parseJWT L p0 p1 sig of
              Inl e \<Rightarrow> Inl e
            | Inr tok \<Rightarrow> Inr (tok\<lparr>Signature := []\<rparr>))
       \<and> (\<forall>tok. parseJWT L p0 p1 sig = Inr tok
            \<longrightarrow> (\<forall>e. snd (fst (ParseAndVerify L clk v ts)) \<noteq> Some (DecodeToken [p0, p1, []] e)))"
proof -
  have sg: "parseJWT L p0 p1 [] =
           (case parseJWT L p0 p1 sig of
              Inl e \<Rightarrow> Inl e
            | Inr tok \<Rightarrow> Inr (tok\<lparr>Signature := []\<rparr>))"
    by (rule parseJWT_signature)
  have "snd (fst (ParseAndVerify L clk v ts)) \<noteq> Some (MalformedToken ts)
      \<and> (\<forall>tok. parseJWT L p0 p1 sig = Inr tok
            \<longrightarrow> (\<forall>e. snd (fst (ParseAndVerify L clk v ts)) \<noteq> Some (DecodeToken [p0, p1, []] e)))"
    using assms sg
    by (cases rule: ParseAndVerify_cases [of ts L clk v]) (auto split: if_splits)
  with sg show ?thesis by blast
qed

text \<open>
  Claim C5: for a token that reaches the expiry check (it splits, decodes, names RS256,
  its key is resolved, its signature verifies, issuer and audience match),
  \<^verbatim>\<open>ParseAndVerify\<close> reports \<open>TokenExpired\<close> exactly when the expiry is not strictly
  greater than the clock reading; in particular when the two are equal.
\<close>

theorem expiry_check_is_strict:
  assumes "Split ts (CHR ''.'') = [p0, p1, p2]"
    and "parseJWT L p0 p1 p2 = Inr tok"
    and "ALG (Header tok) = ''RS256''"
    and "fst (retrieveKey L (keys v) (KID (Header tok)) (now_retrieveKey clk)) = (Some k, None)"
    and "verifySignature L (Join [p0, p1] ''.'') p2 k = None"
    and "ISS (Claims tok) = issuer v"
    and "AUD (Claims tok) = clientID v"
  shows "(snd (fst (ParseAndVerify L clk v ts)) = Some TokenExpired
            \<longleftrightarrow> \<not> sint (now_exp clk) < sint (EXP (Claims tok)))
       \<and> (EXP (Claims tok) = now_exp clk
            \<longrightarrow> fst (ParseAndVerify L clk v ts) = (None, Some TokenExpired))"
proof -
  obtain kc where "retrieveKey L (keys v) (KID (Header tok)) (now_retrieveKey clk) = ((Some k, None), kc)"
    using assms(4) by (metis prod.collapse)
  from ParseAndVerify_claims [OF assms(1-3) this assms(5)] assms(6,7)
  show ?thesis by auto
qed

text \<open>
  Claim C6: for a token that reaches the issued-at check (as for the expiry check, and
  the expiry lies strictly after the clock reading), \<^verbatim>\<open>ParseAndVerify\<close> reports
  \<open>TokenIssuedForFutureTime\<close> exactly when the issued-at time is strictly greater than
  the clock reading; a token issued at the clock reading is accepted.
\<close>

theorem issued_at_check_allows_now:
  assumes "Split ts (CHR ''.'') = [p0, p1, p2]"
    and "parseJWT L p0 p1 p2 = Inr tok"
    and "ALG (Header tok) = ''RS256''"
    and "fst (retrieveKey L (keys v) (KID (Header tok)) (now_retrieveKey clk)) = (Some k, None)"
    and "verifySignature L (Join [p0, p1] ''.'') p2 k = None"
    and "ISS (Claims tok) = issuer v"
    and "AUD (Claims tok) = clientID v"
    and "sint (now_exp clk) < sint (EXP (Claims tok))"
  shows "(snd (fst (ParseAndVerify L clk v ts)) = Some TokenIssuedForFutureTime
            \<longleftrightarrow> sint (now_iat clk) < sint (IAT (Claims tok)))
       \<and> (IAT (Claims tok) = now_iat clk
            \<longrightarrow> fst (ParseAndVerify L clk v ts) = (Some tok, None))"
proof -
  obtain kc where "retrieveKey L (keys v) (KID (Header tok)) (now_retrieveKey clk) = ((Some k, None), kc)"
    using assms(4) by (metis prod.collapse)
  from ParseAndVerify_claims [OF assms(1-3) this assms(5)] assms(6-8)
  show ?thesis by auto
qed

lemma retrieveKey_no_error:
  assumes "keyExpire c < now \<longrightarrow>
             (\<exists>reader expires. keyFetcher c (fetched c) = (reader, expires, None)
                \<and> fst (UpdatePublicKey L c reader expires) = None)"
  shows "fst (retrieveKey L c kid now) = (map_of (publicKeys (snd (retrieveKey L c kid now))) kid, None)"
proof (cases "keyExpire c < now")
  case False
  then show ?thesis by (simp add: retrieveKey_fresh)
next
  case True
  with assms obtain reader expires where
    f: "keyFetcher c (fetched c) = (reader, expires, None)"
    and u: "fst (UpdatePublicKey L c reader expires) = None"
    by blast
  let ?c1 = "c\<lparr>fetched := Suc (fetched c)\<rparr>"
  have "fst (UpdatePublicKey L ?c1 reader expires) = None"
    using u UpdatePublicKey_error_any_cache [of L ?c1 reader expires c expires] by simp
  then obtain c2 where "UpdatePublicKey L ?c1 reader expires = (None, c2)"
    by (metis prod.collapse)
  from retrieveKey_update_ok [OF True f this] show ?thesis by simp
qed

text \<open>
  Claim C7: when no refresh is due, or the refresh succeeds, and the key identifier is
  not in the key set of the resulting cache, \<^verbatim>\<open>retrieveKey\<close> returns a nil key and a
  nil error. \<^verbatim>\<open>ParseAndVerify\<close> turns that outcome into \<open>MatchingKeyNotFound\<close>, and an
  error of \<^verbatim>\<open>retrieveKey\<close> into \<open>RetrieveKey\<close>, which is a different error.
\<close>

theorem absent_key_is_not_an_error:
  "((keyExpire c < now \<longrightarrow>
       (\<exists>reader expires. keyFetcher c (fetched c) = (reader, expires, None)
          \<and> fst (UpdatePublicKey L c reader expires) = None))
     \<and> kid \<notin> dom (map_of (publicKeys (snd (retrieveKey L c kid now))))
     \<longrightarrow> fst (retrieveKey L c kid now) = (None, None))
   \<and> (Split ts (CHR ''.'') = [p0, p1, p2] \<and> parseJWT L p0 p1 p2 = Inr tok
        \<and> ALG (Header tok) = ''RS256''
      \<longrightarrow> (fst (retrieveKey L (keys v) (KID (Header tok)) (now_retrieveKey clk)) = (None, None)
             \<longrightarrow> fst (ParseAndVerify L clk v ts) = (None, Some MatchingKeyNotFound))
         \<and> (\<forall>key e. fst (retrieveKey L (keys v) (KID (Header tok)) (now_retrieveKey clk)) = (key, Some e)
             \<longrightarrow> fst (ParseAndVerify L clk v ts) = (None, Some (RetrieveKey e))
                \<and> RetrieveKey e \<noteq> MatchingKeyNotFound))"
proof -
  have lookup: "fst (retrieveKey L c kid now) = (None, None)"
    if "keyExpire c < now \<longrightarrow>
       (\<exists>reader expires. keyFetcher c (fetched c) = (reader, expires, None)
          \<and> fst (UpdatePublicKey L c reader expires) = None)"
      and "kid \<notin> dom (map_of (publicKeys (snd (retrieveKey L c kid now))))"
    using retrieveKey_no_error [OF that(1), of kid] that(2) by (simp add: domIff)
  have nil: "fst (ParseAndVerify L clk v ts) = (None, Some MatchingKeyNotFound)"
    if h: "Split ts (CHR ''.'') = [p0, p1, p2]" "parseJWT L p0 p1 p2 = Inr tok"
       "ALG (Header tok) = ''RS256''"
       "fst (retrieveKey L (keys v) (KID (Header tok)) (now_retrieveKey clk)) = (None, None)"
  proof -
    obtain kc where "retrieveKey L (keys v) (KID (Header tok)) (now_retrieveKey clk) = ((None, None), kc)"
      using h(4) by (metis prod.collapse)
    from ParseAndVerify_key_nil [OF h(1-3) this] show ?thesis by simp
  qed
  have failed: "fst (ParseAndVerify L clk v ts) = (None, Some (RetrieveKey e))"
    if h: "Split ts (CHR ''.'') = [p0, p1, p2]" "parseJWT L p0 p1 p2 = Inr tok"
       "ALG (Header tok) = ''RS256''"
       "fst (retrieveKey L (keys v) (KID (Header tok)) (now_retrieveKey clk)) = (key, Some e)"
    for key e
  proof -
    obtain kc where "retrieveKey L (keys v) (KID (Header tok)) (now_retrieveKey clk) = ((key, Some e), kc)"
      using h(4) by (metis prod.collapse)
    from ParseAndVerify_key_error [OF h(1-3) this] show ?thesis by simp
  qed
  from lookup nil failed show ?thesis by simp
qed

lemma Split_AA_AA_AA: "Split ''AA.AA.AA'' (CHR ''.'') = [''AA'', ''AA'', ''AA'']"
  by simp

lemma parseJWT_AA_AA: "parseJWT example_lib ''AA'' ''AA'' sig = Inr (example_token sig)"
proof -
  have "parseJWT example_lib ''AA'' ''AA'' [] = Inr (example_token [])"
    by code_simp
  then show ?thesis
    using parseJWT_signature [of example_lib "''AA''" "''AA''" sig "[]"]
    by (simp add: example_token_def)
qed

lemma ALG_example_token: "ALG (Header (example_token sig)) = ''RS256''"
  by (simp add: example_token_def)

lemma retrieveKey_example:
  "fst (retrieveKey example_lib (keys (example_verifier example_cache))
          (KID (Header (example_token sig))) (now_retrieveKey (example_clock 5 t)))
     = (Some example_key, None)"
  by (simp add: retrieveKey_def example_verifier_def example_cache_def example_token_def
      example_clock_def example_key_def)

lemma DecodeString_AA: "DecodeString ''AA'' = Inr [0]"
  by code_simp

lemma DecodeString_empty: "DecodeString [] = Inr []"
  by code_simp

lemma verifySignature_AA:
  "verifySignature example_lib signedString ''AA'' key = None"
  by (simp add: verifySignature_def DecodeString_AA example_lib_def)

lemma verifySignature_empty:
  "verifySignature example_lib signedString [] key
     = Some (SignatureVerificationFailed (LibError ''crypto/rsa: verification error''))"
  by (simp add: verifySignature_def DecodeString_empty example_lib_def)

lemma Split_AQ_AQ_AA: "Split ''AQ.AQ.AA'' (CHR ''.'') = [''AQ'', ''AQ'', ''AA'']"
  by simp

lemma parseJWT_AQ_AQ: "parseJWT example_lib ''AQ'' ''AQ'' ''AA'' = Inr (other_token ''AA'')"
  by code_simp

lemma other_token_fields:
  "ALG (Header (other_token sig)) = ''HS256''"
  "ISS (Claims (other_token sig)) = ''https://example.org''"
  "EXP (Claims (other_token sig)) = 2000"
  by (simp_all add: other_token_def example_token_def)

lemma ISS_example_token: "ISS (Claims (example_token sig)) = issuer (example_verifier c)"
  by (simp add: example_token_def example_verifier_def)

lemma AUD_example_token: "AUD (Claims (example_token sig)) = clientID (example_verifier c)"
  by (simp add: example_token_def example_verifier_def)

text \<open>
  Witness for claim C5: the token \<open>AA.AA.AA\<close> expires at 2000 and is checked at 2000.
\<close>

theorem expiry_check_is_strict_witness:
  "Split ''AA.AA.AA'' (CHR ''.'') = [''AA'', ''AA'', ''AA'']
   \<and> parseJWT example_lib ''AA'' ''AA'' ''AA'' = Inr (example_token ''AA'')
   \<and> EXP (Claims (example_token ''AA'')) = now_exp (example_clock 5 2000)
   \<and> fst (ParseAndVerify example_lib (example_clock 5 2000) (example_verifier example_cache) ''AA.AA.AA'')
       = (None, Some TokenExpired)"
proof -
  have e: "EXP (Claims (example_token ''AA'')) = now_exp (example_clock 5 2000)"
    by (simp add: example_token_def example_clock_def)
  from expiry_check_is_strict [OF Split_AA_AA_AA parseJWT_AA_AA ALG_example_token
      retrieveKey_example verifySignature_AA ISS_example_token AUD_example_token] e
  have "fst (ParseAndVerify example_lib (example_clock 5 2000) (example_verifier example_cache) ''AA.AA.AA'')
       = (None, Some TokenExpired)"
    by blast
  with e show ?thesis by (simp add: parseJWT_AA_AA)
qed

text \<open>
  Witness for claim C6: the token \<open>AA.AA.AA\<close> is issued at 1000 and checked at 1000.
\<close>

theorem issued_at_check_allows_now_witness:
  "Split ''AA.AA.AA'' (CHR ''.'') = [''AA'', ''AA'', ''AA'']
   \<and> parseJWT example_lib ''AA'' ''AA'' ''AA'' = Inr (example_token ''AA'')
   \<and> sint (now_exp (example_clock 5 1000)) < sint (EXP (Claims (example_token ''AA'')))
   \<and> IAT (Claims (example_token ''AA'')) = now_iat (example_clock 5 1000)
   \<and> fst (ParseAndVerify example_lib (example_clock 5 1000) (example_verifier example_cache) ''AA.AA.AA'')
       = (Some (example_token ''AA''), None)"
proof -
  have x: "sint (now_exp (example_clock 5 1000)) < sint (EXP (Claims (example_token ''AA'')))"
    by (simp add: example_token_def example_clock_def)
  have i: "IAT (Claims (example_token ''AA'')) = now_iat (example_clock 5 1000)"
    by (simp add: example_token_def example_clock_def)
  from issued_at_check_allows_now [OF Split_AA_AA_AA parseJWT_AA_AA ALG_example_token
      retrieveKey_example verifySignature_AA ISS_example_token AUD_example_token x] i
  have "fst (ParseAndVerify example_lib (example_clock 5 1000) (example_verifier example_cache) ''AA.AA.AA'')
       = (Some (example_token ''AA''), None)"
    by blast
  with x i show ?thesis by (simp add: parseJWT_AA_AA)
qed

text \<open>
  Witness for claim C10: the token \<open>AQ.AQ.AA\<close> decodes and is then rejected for its
  algorithm; no token is returned.
\<close>

theorem ParseAndVerify_error_nil_token_witness:
  "snd (fst (ParseAndVerify example_lib (example_clock 5 1500) (example_verifier example_cache) ''AQ.AQ.AA''))
     = Some (ExpectedAlgRS256 ''HS256'')
   \<and> fst (fst (ParseAndVerify example_lib (example_clock 5 1500) (example_verifier example_cache) ''AQ.AQ.AA''))
     = None"
proof -
  have e: "snd (fst (ParseAndVerify example_lib (example_clock 5 1500) (example_verifier example_cache) ''AQ.AQ.AA''))
     = Some (ExpectedAlgRS256 ''HS256'')"
    using ParseAndVerify_alg_fail [OF Split_AQ_AQ_AA parseJWT_AQ_AQ]
    by (simp add: other_token_fields)
  then have "snd (fst (ParseAndVerify example_lib (example_clock 5 1500) (example_verifier example_cache) ''AQ.AQ.AA''))
     \<noteq> None"
    by simp
  from ParseAndVerify_error_nil_token [OF this] e show ?thesis by simp
qed

text \<open>
  Witness for claim C1: the token \<open>AQ.AQ.AA\<close>, checked at 3000, fails the algorithm
  check, the issuer check and the expiry check; the algorithm error is reported, and the
  verifier is unchanged.
\<close>

theorem ParseAndVerify_reports_first_rejection_witness:
  "rejection example_lib (example_clock 5 3000) (example_verifier example_cache) ''AQ.AQ.AA'' AlgStep
     = Some (ExpectedAlgRS256 ''HS256'')
   \<and> rejection example_lib (example_clock 5 3000) (example_verifier example_cache) ''AQ.AQ.AA'' IssuerStep
     = Some InvalidIssuer
   \<and> rejection example_lib (example_clock 5 3000) (example_verifier example_cache) ''AQ.AQ.AA'' ExpiryStep
     = Some TokenExpired
   \<and> snd (fst (ParseAndVerify example_lib (example_clock 5 3000) (example_verifier example_cache) ''AQ.AQ.AA''))
     = Some (ExpectedAlgRS256 ''HS256'')
   \<and> snd (ParseAndVerify example_lib (example_clock 5 3000) (example_verifier example_cache) ''AQ.AQ.AA'')
     = example_verifier example_cache"
proof -
  let ?r = "rejection example_lib (example_clock 5 3000) (example_verifier example_cache) ''AQ.AQ.AA''"
  have d: "decoded example_lib ''AQ.AQ.AA'' = Some (''AQ'', ''AQ'', ''AA'', other_token ''AA'')"
    by (rule decoded_ok [OF Split_AQ_AQ_AA parseJWT_AQ_AQ])
  have s: "?r SplitStep = None" "?r DecodeStep = None"
    by (simp_all add: Split_AQ_AQ_AA parseJWT_AQ_AQ)
  have a: "?r AlgStep = Some (ExpectedAlgRS256 ''HS256'')"
    by (simp add: d other_token_fields)
  have i: "?r IssuerStep = Some InvalidIssuer"
    by (simp add: d other_token_fields example_verifier_def)
  have x: "?r ExpiryStep = Some TokenExpired"
    by (simp add: d other_token_fields example_clock_def)
  have f: "first_rejection example_lib (example_clock 5 3000) (example_verifier example_cache) ''AQ.AQ.AA''
     = Some (ExpectedAlgRS256 ''HS256'')"
    by (simp add: first_rejection_def step_order_def s a del: rejection.simps)
  from ParseAndVerify_reports_first_rejection
         [of example_lib "example_clock 5 3000" "example_verifier example_cache" "''AQ.AQ.AA''"]
       a i x f
  show ?thesis by simp
qed

lemma Split_AA_AA_empty: "Split ''AA.AA.'' (CHR ''.'') = [''AA'', ''AA'', []]"
  by simp

text \<open>
  Witness for claim C4: the token \<open>AA.AA.\<close> is decoded with an empty signature and
  rejected by the signature check.
\<close>

theorem empty_signature_passes_decoding_witness:
  "Split ''AA.AA.'' (CHR ''.'') = [''AA'', ''AA'', []]
   \<and> parseJWT example_lib ''AA'' ''AA'' [] = Inr (example_token [])
   \<and> Signature (example_token []) = []
   \<and> snd (fst (ParseAndVerify example_lib (example_clock 5 1500) (example_verifier example_cache) ''AA.AA.''))
       \<noteq> Some (MalformedToken ''AA.AA.'')
   \<and> snd (fst (ParseAndVerify example_lib (example_clock 5 1500) (example_verifier example_cache) ''AA.AA.''))
       \<noteq> Some (DecodeToken [''AA'', ''AA'', []] CorruptInputError)
   \<and> snd (fst (ParseAndVerify example_lib (example_clock 5 1500) (example_verifier example_cache) ''AA.AA.''))
       = Some (VerifySignature (SignatureVerificationFailed (LibError ''crypto/rsa: verification error'')))"
proof -
  let ?pv = "ParseAndVerify example_lib (example_clock 5 1500) (example_verifier example_cache) ''AA.AA.''"
  obtain kc where r: "retrieveKey example_lib (keys (example_verifier example_cache))
          (KID (Header (example_token []))) (now_retrieveKey (example_clock 5 1500))
     = ((Some example_key, None), kc)"
    using retrieveKey_example [of "[]" 1500] by (metis prod.collapse)
  have v: "snd (fst ?pv)
       = Some (VerifySignature (SignatureVerificationFailed (LibError ''crypto/rsa: verification error'')))"
    using ParseAndVerify_signature_fail
            [OF Split_AA_AA_empty parseJWT_AA_AA ALG_example_token r verifySignature_empty]
    by simp
  from empty_signature_passes_decoding
         [OF Split_AA_AA_empty, of example_lib "example_clock 5 1500" "example_verifier example_cache" "''AA''"]
  have "snd (fst ?pv) \<noteq> Some (MalformedToken ''AA.AA.'')"
    and "parseJWT example_lib ''AA'' ''AA'' [] = Inr (example_token ''AA''\<lparr>Signature := []\<rparr>)"
    and "\<forall>e. snd (fst ?pv) \<noteq> Some (DecodeToken [''AA'', ''AA'', []] e)"
    by (simp_all add: parseJWT_AA_AA)
  with v show ?thesis
    by (simp add: Split_AA_AA_empty example_token_def)
qed

text \<open>
  Witness for claim C7: a cache that holds only the key \<open>k2\<close> is asked for \<open>k1\<close>, and
  a cache whose refresh fails is asked at a time past its deadline.
\<close>

theorem absent_key_is_not_an_error_witness:
  "\<not> keyExpire other_key_cache < 5
   \<and> ''k1'' \<notin> dom (map_of (publicKeys (snd (retrieveKey example_lib other_key_cache ''k1'' 5))))
   \<and> fst (retrieveKey example_lib other_key_cache ''k1'' 5) = (None, None)
   \<and> fst (ParseAndVerify example_lib (example_clock 5 1500) (example_verifier other_key_cache) ''AA.AA.AA'')
       = (None, Some MatchingKeyNotFound)
   \<and> fst (ParseAndVerify example_lib (example_clock 11 1500) (example_verifier failing_cache) ''AA.AA.AA'')
       = (None, Some (RetrieveKey (UpdateKeyCache (NoPublicKeys \<lparr>Keys = Some []\<rparr>))))"
proof -
  have fresh: "\<not> keyExpire other_key_cache < 5"
    by (simp add: other_key_cache_def example_cache_def)
  then have same: "snd (retrieveKey example_lib other_key_cache ''k1'' 5) = other_key_cache"
    by (simp add: retrieveKey_fresh)
  have absent: "''k1'' \<notin> dom (map_of (publicKeys (snd (retrieveKey example_lib other_key_cache ''k1'' 5))))"
    by (simp add: same) (simp add: other_key_cache_def)
  from absent_key_is_not_an_error
         [of other_key_cache 5 example_lib "''k1''" "''AA.AA.AA''" "''AA''" "''AA''" "''AA''"
             "example_token ''AA''" "example_verifier other_key_cache" "example_clock 5 1500"]
       fresh absent
  have lookup: "fst (retrieveKey example_lib other_key_cache ''k1'' 5) = (None, None)"
    and orch: "fst (retrieveKey example_lib (keys (example_verifier other_key_cache))
                  (KID (Header (example_token ''AA''))) (now_retrieveKey (example_clock 5 1500)))
                = (None, None)
             \<longrightarrow> fst (ParseAndVerify example_lib (example_clock 5 1500) (example_verifier other_key_cache) ''AA.AA.AA'')
                = (None, Some MatchingKeyNotFound)"
    by (simp_all add: Split_AA_AA_AA parseJWT_AA_AA ALG_example_token)
  have "fst (retrieveKey example_lib (keys (example_verifier other_key_cache))
                  (KID (Header (example_token ''AA''))) (now_retrieveKey (example_clock 5 1500)))
                = (None, None)"
    using lookup by (simp add: example_verifier_def example_token_def example_clock_def)
  with orch have nf: "fst (ParseAndVerify example_lib (example_clock 5 1500) (example_verifier other_key_cache) ''AA.AA.AA'')
                = (None, Some MatchingKeyNotFound)"
    by simp
  have rf: "fst (retrieveKey example_lib (keys (example_verifier failing_cache))
                  (KID (Header (example_token ''AA''))) (now_retrieveKey (example_clock 11 1500)))
                = (None, Some (UpdateKeyCache (NoPublicKeys \<lparr>Keys = Some []\<rparr>)))"
    by (simp add: retrieveKey_def UpdatePublicKey_def parseJWKS_def example_lib_def
        failing_cache_def example_cache_def example_verifier_def example_clock_def)
  from absent_key_is_not_an_error
         [of other_key_cache 5 example_lib "''k1''" "''AA.AA.AA''" "''AA''" "''AA''" "''AA''"
             "example_token ''AA''" "example_verifier failing_cache" "example_clock 11 1500"]
       rf
  have "fst (ParseAndVerify example_lib (example_clock 11 1500) (example_verifier failing_cache) ''AA.AA.AA'')
       = (None, Some (RetrieveKey (UpdateKeyCache (NoPublicKeys \<lparr>Keys = Some []\<rparr>))))"
    by (simp add: Split_AA_AA_AA parseJWT_AA_AA ALG_example_token)
  with fresh absent lookup nf show ?thesis by simp
qed

end
